theory Spec2Isabelle
  imports Complex_Main "HOL-Library.Sublist"
begin

section \<open>Numbers and strings of the source language\<close>

text \<open>
  The source is TypeScript. Its \<open>number\<close> values that reach the ledger are amounts of
  money; they are modelled as exact rationals. \<open>NaN\<close> is the value \<open>None\<close> of
  \<open>parseFloat\<close> below and is replaced by \<open>0\<close> at every place where the source produces
  an amount (\<open>isNaN(val)\<close>, \<open>|| 0\<close>), so it never reaches a Transaction. Rounding to the
  nearest double and the value \<open>Infinity\<close> (a numeral of several hundred digits) are outside
  the model. The additions of the income statement are kept in the order of the source,
  and what is stated about its totals does not rest on reordering a sum.

  A string is a list of code units; \<open>char\<close> covers the code units below 256.
\<close>

type_synonym number = rat

definition isWhiteSpace :: "char \<Rightarrow> bool" where
  \<comment> \<open>the characters of \<open>\s\<close> and of \<open>trim\<close>: TAB, LF, VT, FF, CR, SP, NBSP\<close>
  "isWhiteSpace c =
     (c \<in> {CHR 0x09, CHR 0x0A, CHR 0x0B, CHR 0x0C, CHR 0x0D, CHR 0x20, CHR 0xA0})"

definition isDigit :: "char \<Rightarrow> bool" where
  "isDigit c = (c \<in> set ''0123456789'')"

definition setBit5 :: "char \<Rightarrow> char" where
  \<comment> \<open>adds 32 to a code unit whose bit 5 is clear\<close>
  "setBit5 c = (case c of Char b0 b1 b2 b3 b4 b5 b6 b7 \<Rightarrow> Char b0 b1 b2 b3 b4 True b6 b7)"

definition toLowerChar :: "char \<Rightarrow> char" where
  \<comment> \<open>A..Z and the capital letters of Latin-1 (0xC0..0xDE without the sign 0xD7)\<close>
  "toLowerChar c =
     (let n = (of_char c :: nat)
      in if (65 \<le> n \<and> n \<le> 90) \<or> (192 \<le> n \<and> n \<le> 222 \<and> n \<noteq> 215) then setBit5 c else c)"

definition toLowerCase :: "string \<Rightarrow> string" where
  "toLowerCase s = map toLowerChar s"

definition trim :: "string \<Rightarrow> string" where
  "trim s = rev (dropWhile isWhiteSpace (rev (dropWhile isWhiteSpace s)))"

fun startsWith :: "string \<Rightarrow> string \<Rightarrow> bool" where
  "startsWith s [] = True"
| "startsWith [] (p # ps) = False"
| "startsWith (c # s) (p # ps) = (c = p \<and> startsWith s ps)"

definition endsWith :: "string \<Rightarrow> string \<Rightarrow> bool" where
  "endsWith s p = startsWith (rev s) (rev p)"

fun includes_str :: "string \<Rightarrow> string \<Rightarrow> bool" where
  "includes_str [] k = (k = [])"
| "includes_str (c # s) k = (startsWith (c # s) k \<or> includes_str s k)"

fun split_str :: "char \<Rightarrow> string \<Rightarrow> string list" where
  \<comment> \<open>\<open>s.split(d)\<close> for a separator of one character: never the empty list\<close>
  "split_str d [] = [[]]"
| "split_str d (c # s) =
     (if c = d then [] # split_str d s
      else (case split_str d s of [] \<Rightarrow> [[c]] | f # fs \<Rightarrow> (c # f) # fs))"

definition removeAll_char :: "char \<Rightarrow> string \<Rightarrow> string" where
  \<comment> \<open>\<open>s.replace(/c/g, '')\<close>\<close>
  "removeAll_char c s = filter (\<lambda>x. x \<noteq> c) s"

fun replaceFirst :: "char \<Rightarrow> char \<Rightarrow> string \<Rightarrow> string" where
  \<comment> \<open>\<open>s.replace(a, b)\<close> with a string pattern: only the first occurrence\<close>
  "replaceFirst a b [] = []"
| "replaceFirst a b (c # s) = (if c = a then b # s else c # replaceFirst a b s)"

fun indexFrom :: "int \<Rightarrow> string \<Rightarrow> char \<Rightarrow> int" where
  \<comment> \<open>the index of the first occurrence in a string that starts at index \<open>i\<close>\<close>
  "indexFrom i [] c = -1"
| "indexFrom i (x # s) c = (if x = c then i else indexFrom (i + 1) s c)"

definition indexOf :: "string \<Rightarrow> char \<Rightarrow> int" where
  \<comment> \<open>\<open>-1\<close> when the character does not occur\<close>
  "indexOf s c = indexFrom 0 s c"

fun lastIndexFrom :: "int \<Rightarrow> int \<Rightarrow> string \<Rightarrow> char \<Rightarrow> int" where
  \<comment> \<open>\<open>found\<close> is the index of the last occurrence seen so far\<close>
  "lastIndexFrom i found [] c = found"
| "lastIndexFrom i found (x # s) c = lastIndexFrom (i + 1) (if x = c then i else found) s c"

definition lastIndexOf :: "string \<Rightarrow> char \<Rightarrow> int" where
  "lastIndexOf s c = lastIndexFrom 0 (-1) s c"

fun digitsValue :: "nat \<Rightarrow> string \<Rightarrow> nat" where
  \<comment> \<open>the value of a run of decimal digits, read left to right\<close>
  "digitsValue acc [] = acc"
| "digitsValue acc (c # s) = digitsValue (10 * acc + (of_char c - 48)) s"

definition parseFloat :: "string \<Rightarrow> number option" where
  \<comment> \<open>ECMAScript \<open>parseFloat\<close>: the longest prefix that is a decimal literal (a sign, digits,
      a point, digits), \<open>None\<close> for \<open>NaN\<close>. Both call sites pass strings over the characters
      \<open>0-9 . -\<close>, where leading white space, an exponent part and \<open>Infinity\<close> cannot occur.\<close>
  "parseFloat s =
     (let neg = startsWith s ''-'';
          u = (if startsWith s ''-'' \<or> startsWith s ''+'' then tl s else s);
          ip = takeWhile isDigit u;
          r = dropWhile isDigit u;
          fp = (if startsWith r ''.'' then takeWhile isDigit (tl r) else [])
      in if ip = [] \<and> fp = [] then None
         else (let v = of_nat (digitsValue 0 ip) + of_nat (digitsValue 0 fp) / 10 ^ length fp
               in Some (if neg then - v else v)))"

section \<open>Data model (types.ts)\<close>

datatype Category = Revenue | Expense | Asset | Liability | Equity

record Transaction =
  id' :: string
  date :: string
  description :: string
  category :: Category
  amount :: number
  reference :: string
  contraAccount :: "string option"

record JournalLine =
  accountId :: string
  accountName :: string
  debit :: number
  credit :: number

record JournalEntry =
  entryId :: string
  entryDate :: string
  entryReference :: string
  entryDescription :: string
  lines :: "JournalLine list"

definition MOCK_TRANSACTIONS :: "Transaction list" where
  \<comment> \<open>constants.ts; an absent \<open>contraAccount\<close> is \<open>None\<close>\<close>
  "MOCK_TRANSACTIONS =
     [\<lparr>id' = ''TX001'', date = ''2024-06-01'', description = ''Rental Income - Inv #1001'',
        category = Revenue, amount = 450000, reference = ''INV-1001'', contraAccount = None\<rparr>,
      \<lparr>id' = ''TX002'', date = ''2024-06-02'',
        description = ''Purchase Parts (Tires) - Mitra Motor'',
        category = Expense, amount = - 2500000, reference = ''PO-502'',
        contraAccount = Some ''2000''\<rparr>,
      \<lparr>id' = ''TX003'', date = ''2024-06-03'', description = ''Rental Income - Inv #1002'',
        category = Revenue, amount = 1200000, reference = ''INV-1002'', contraAccount = None\<rparr>,
      \<lparr>id' = ''TX004'', date = ''2024-06-04'', description = ''Monthly Garage Rent'',
        category = Expense, amount = - 5000000, reference = ''AP-201'', contraAccount = None\<rparr>,
      \<lparr>id' = ''TX005'', date = ''2024-06-05'',
        description = ''New Unit Purchase (Down Payment)'',
        category = Asset, amount = - 7000000, reference = ''CAPEX-01'', contraAccount = None\<rparr>]"

section \<open>Double-entry engine (AccountingView, systemJournalEntries)\<close>

definition journalLines :: "Transaction \<Rightarrow> JournalLine list" where
  \<comment> \<open>the \<open>lines\<close> array after the pushes of one call of the map callback\<close>
  "journalLines tx =
     (let absAmount = \<bar>amount tx\<bar>
      in if category tx = Revenue then
           [\<lparr>accountId = ''1002'', accountName = ''Bank BCA'', debit = absAmount, credit = 0\<rparr>,
            \<lparr>accountId = ''4000'', accountName = ''Rental Revenue'', debit = 0, credit = absAmount\<rparr>]
         else if category tx = Expense then
           (let expenseAccount =
                  (if includes_str (toLowerCase (description tx)) ''maintenance''
                      \<or> includes_str (toLowerCase (description tx)) ''parts''
                   then (''5001'', ''Maintenance Expense'')
                   else (''5002'', ''Rent Expense (Garage)''))
            in [\<lparr>accountId = fst expenseAccount, accountName = snd expenseAccount,
                  debit = absAmount, credit = 0\<rparr>]
               @ (if contraAccount tx = Some ''2000''
                  then [\<lparr>accountId = ''2000'', accountName = ''Accounts Payable'',
                          debit = 0, credit = absAmount\<rparr>]
                  else [\<lparr>accountId = ''1002'', accountName = ''Bank BCA'',
                          debit = 0, credit = absAmount\<rparr>]))
         else if category tx = Asset then
           [\<lparr>accountId = ''1200'', accountName = ''Motorcycle Fleet Inventory'',
              debit = absAmount, credit = 0\<rparr>,
            \<lparr>accountId = ''1002'', accountName = ''Bank BCA'', debit = 0, credit = absAmount\<rparr>]
         else [])"

definition journalEntryOf :: "Transaction \<Rightarrow> JournalEntry" where
  "journalEntryOf tx =
     \<lparr>entryId = id' tx, entryDate = date tx, entryReference = reference tx,
      entryDescription = description tx, lines = journalLines tx\<rparr>"

definition systemJournalEntries :: "Transaction list \<Rightarrow> JournalEntry list" where
  "systemJournalEntries transactions = map journalEntryOf transactions"

section \<open>Currency parser and tabular reader (TransactionManager)\<close>

definition stripOneSpace :: "string \<Rightarrow> string" where
  \<comment> \<open>the trailing \<open>\s?\<close> of the currency pattern\<close>
  "stripOneSpace s = (case s of [] \<Rightarrow> [] | c # r \<Rightarrow> if isWhiteSpace c then r else s)"

definition stripCurrency :: "string \<Rightarrow> string" where
  \<comment> \<open>\<open>clean.replace(/^(Rp\.?|IDR|USD)\s?/i, '')\<close>\<close>
  "stripCurrency s =
     (if startsWith (toLowerCase s) ''rp'' then
        (let r = drop 2 s in stripOneSpace (if startsWith r ''.'' then tl r else r))
      else if startsWith (toLowerCase s) ''idr'' \<or> startsWith (toLowerCase s) ''usd'' then
        stripOneSpace (drop 3 s)
      else s)"

definition separators :: "string \<Rightarrow> string" where
  \<comment> \<open>step 4 of \<open>parseCurrency\<close>: Indonesian against US format\<close>
  "separators clean =
     (if indexOf clean (CHR '','') > -1 \<and> indexOf clean (CHR ''.'') > -1 then
        (if lastIndexOf clean (CHR '','') > lastIndexOf clean (CHR ''.'')
         then replaceFirst (CHR '','') (CHR ''.'') (removeAll_char (CHR ''.'') clean)
         else removeAll_char (CHR '','') clean)
      else if indexOf clean (CHR '','') > -1 then
        (let parts = split_str (CHR '','') clean
         in if length parts > 1 \<and> length (last parts) = 3
            then removeAll_char (CHR '','') clean
            else replaceFirst (CHR '','') (CHR ''.'') clean)
      else if indexOf clean (CHR ''.'') > -1 then removeAll_char (CHR ''.'') clean
      else clean)"

definition parseCurrency :: "string \<Rightarrow> number" where
  "parseCurrency str =
     (if str = [] then 0
      else
        (let clean0 = trim str;
             isParentheses = (startsWith clean0 ''('' \<and> endsWith clean0 '')'');
             clean1 = (if isParentheses then butlast (tl clean0) else clean0);
             clean2 = filter (\<lambda>c. \<not> isWhiteSpace c) (stripCurrency clean1);
             isNegative = (isParentheses \<or> startsWith clean2 ''-'');
             clean3 = (if startsWith clean2 ''-'' then tl clean2 else clean2);
             clean4 = filter (\<lambda>c. isDigit c \<or> c = CHR ''.'') (separators clean3)
         in (case parseFloat clean4 of
               None \<Rightarrow> 0
             | Some val \<Rightarrow> if isNegative then - val else val)))"

definition countChar :: "char \<Rightarrow> string \<Rightarrow> nat" where
  \<comment> \<open>\<open>(line.match(/c/g) || []).length\<close>\<close>
  "countChar c line = length (filter (\<lambda>x. x = c) line)"

definition detectDelimiter :: "string \<Rightarrow> char" where
  "detectDelimiter text =
     (let lines = split_str (CHR 0x0A) text
      in if length lines < 2 then CHR '',''
         else
           (let line = lines ! 0;
                tabs = countChar (CHR 0x09) line;
                semicolons = countChar (CHR '';'') line;
                commas = countChar (CHR '','') line
            in if tabs > commas \<and> tabs > semicolons then CHR 0x09
               else if semicolons > commas then CHR '';''
               else CHR '',''))"

fun splitLoop :: "char \<Rightarrow> string \<Rightarrow> string list \<Rightarrow> string \<Rightarrow> bool \<Rightarrow> string list" where
  \<comment> \<open>the \<open>for\<close> loop of \<open>splitCSVLine\<close> over the characters still to be read, with the
      variables \<open>result\<close>, \<open>current\<close> and \<open>inQuotes\<close>, and the final push\<close>
  "splitLoop delimiter [] result current inQuotes = result @ [trim current]"
| "splitLoop delimiter (c # rest) result current inQuotes =
     (if c = CHR 0x22 then
        (case rest of
           c2 # rest2 \<Rightarrow>
             if inQuotes \<and> c2 = CHR 0x22
             then splitLoop delimiter rest2 result (current @ [CHR 0x22]) inQuotes
             else splitLoop delimiter rest result current (\<not> inQuotes)
         | [] \<Rightarrow> splitLoop delimiter rest result current (\<not> inQuotes))
      else if c = delimiter \<and> \<not> inQuotes then
        splitLoop delimiter rest (result @ [trim current]) [] inQuotes
      else splitLoop delimiter rest result (current @ [c]) inQuotes)"

definition splitCSVLine :: "string \<Rightarrow> char \<Rightarrow> string list" where
  "splitCSVLine line delimiter = splitLoop delimiter line [] [] False"

fun findIndexFrom :: "int \<Rightarrow> ('a \<Rightarrow> bool) \<Rightarrow> 'a list \<Rightarrow> int" where
  "findIndexFrom i p [] = -1"
| "findIndexFrom i p (x # xs) = (if p x then i else findIndexFrom (i + 1) p xs)"

definition findIndex :: "('a \<Rightarrow> bool) \<Rightarrow> 'a list \<Rightarrow> int" where
  \<comment> \<open>\<open>Array.prototype.findIndex\<close>: \<open>-1\<close> when no element satisfies the predicate\<close>
  "findIndex p xs = findIndexFrom 0 p xs"

definition getIdx :: "string list \<Rightarrow> string list \<Rightarrow> int" where
  "getIdx headers keywords = findIndex (\<lambda>h. list_ex (\<lambda>k. includes_str h k) keywords) headers"

record Columns =
  idxDate :: int
  idxRef :: int
  idxDesc :: int
  idxDebit :: int
  idxCredit :: int
  idxAmount :: int

definition mapColumns :: "string list \<Rightarrow> Columns" where
  \<comment> \<open>"Dynamic Column Mapping" of \<open>parseCSV\<close>\<close>
  "mapColumns headers =
     \<lparr>idxDate = getIdx headers [''date'', ''tanggal'', ''tgl''],
      idxRef = getIdx headers [''ref'', ''nomor'', ''no.'', ''code''],
      idxDesc = getIdx headers [''description'', ''deskripsi'', ''keterangan'', ''account'', ''akun''],
      idxDebit = getIdx headers [''debit'', ''masuk''],
      idxCredit = getIdx headers [''credit'', ''kredit'', ''keluar''],
      idxAmount = getIdx headers [''amount'', ''jumlah'', ''nilai'', ''total'']\<rparr>"

section \<open>Transaction materializer (TransactionManager, parseCSV)\<close>

function showNat :: "nat \<Rightarrow> string" where
  \<comment> \<open>a non-negative integer inside a template literal: its decimal digits\<close>
  "showNat n =
     (if n < 10 then [''0123456789'' ! n] else showNat (n div 10) @ [''0123456789'' ! (n mod 10)])"
  by pat_completeness auto
termination
  by (relation "measure (\<lambda>n. n)") auto

declare showNat.simps [simp del]

definition val :: "string list \<Rightarrow> int \<Rightarrow> string" where
  \<comment> \<open>"Helper to safely get value"\<close>
  "val cols idx = (if idx \<ge> 0 \<and> idx < int (length cols) then cols ! nat idx else [])"

definition resolveAmount :: "Columns \<Rightarrow> string list \<Rightarrow> number \<times> Category" where
  \<comment> \<open>"4. Calculate Amount": the values of \<open>finalAmount\<close> and \<open>category\<close> after the branch;
      both start as \<open>0\<close> and \<open>'Revenue'\<close>\<close>
  "resolveAmount cm cols =
     (if idxDebit cm \<ge> 0 \<and> idxCredit cm \<ge> 0 then
        (let debit = parseCurrency (val cols (idxDebit cm));
             credit = parseCurrency (val cols (idxCredit cm))
         in if credit > 0 then (credit, Revenue)
            else if debit > 0 then (- debit, Expense)
            else (0, Revenue))
      else if idxAmount cm \<ge> 0 then (parseCurrency (val cols (idxAmount cm)), Revenue)
      else if length cols \<ge> 5 then
        (let debit = parseCurrency (cols ! 3);
             credit = parseCurrency (cols ! 4)
         in if credit > 0 then (credit, Revenue)
            else if debit > 0 then (- debit, Expense)
            else (0, Revenue))
      else if length cols = 4 then (parseCurrency (cols ! 3), Revenue)
      else (0, Revenue))"

definition refineCategory :: "number \<Rightarrow> Category \<Rightarrow> string \<Rightarrow> Category" where
  \<comment> \<open>"Determine Category from Description if Amount is negative"\<close>
  "refineCategory finalAmount category0 desc =
     (if finalAmount < 0 then
        (let lowerDesc = toLowerCase desc
         in if includes_str lowerDesc ''asset'' \<or> includes_str lowerDesc ''aset''
               \<or> includes_str lowerDesc ''motor'' \<or> includes_str lowerDesc ''unit''
            then Asset else Expense)
      else if finalAmount > 0 then Revenue
      else category0)"

definition rowDesc :: "Columns \<Rightarrow> string list \<Rightarrow> string" where
  \<comment> \<open>"3. Get Description"\<close>
  "rowDesc cm cols =
     (let desc = val cols (idxDesc cm)
      in if desc = [] \<and> length cols > 2 then cols ! 2 else desc)"

definition materializeRow ::
  "nat \<Rightarrow> string \<Rightarrow> Columns \<Rightarrow> nat \<Rightarrow> string list \<Rightarrow> Transaction option" where
  \<comment> \<open>the body of the row loop for row \<open>i\<close> with fields \<open>cols\<close>: the Transaction pushed, if any.
      \<open>now\<close> is \<open>Date.now()\<close> and \<open>today\<close> is \<open>new Date().toISOString().split('T')[0]\<close>.\<close>
  "materializeRow now today cm i cols =
     (let date0 = val cols (idxDate cm);
          date1 = (if date0 = [] \<and> length cols > 0 then cols ! 0 else date0);
          ref0 = val cols (idxRef cm);
          ref1 = (if ref0 = [] \<and> length cols > 1 then cols ! 1 else ref0);
          desc = rowDesc cm cols;
          finalAmount = fst (resolveAmount cm cols);
          category1 = refineCategory finalAmount (snd (resolveAmount cm cols)) desc
      in if finalAmount \<noteq> 0 \<or> desc \<noteq> [] then
           Some \<lparr>id' = ''TX-CSV-'' @ showNat now @ ''-'' @ showNat i,
                 date = (if date1 = [] then today else date1),
                 description = (if desc = [] then ''Imported Transaction'' else desc),
                 category = category1,
                 amount = finalAmount,
                 reference = (if ref1 = [] then ''CSV-'' @ showNat i else ref1),
                 contraAccount = Some ''1002''\<rparr>
         else None)"

record ImportState =
  newTransactions :: "Transaction list"
  parsedCount :: nat
  revCount :: nat
  expCount :: nat

definition pushRow :: "ImportState \<Rightarrow> Transaction option \<Rightarrow> ImportState" where
  "pushRow st r =
     (case r of
        None \<Rightarrow> st
      | Some tx \<Rightarrow>
          \<lparr>newTransactions = newTransactions st @ [tx],
           parsedCount = parsedCount st + 1,
           revCount = (if amount tx > 0 then revCount st + 1 else revCount st),
           expCount = (if amount tx > 0 then expCount st else expCount st + 1)\<rparr>)"

fun rowLoop ::
  "(nat \<Rightarrow> nat) \<Rightarrow> (nat \<Rightarrow> string) \<Rightarrow> char \<Rightarrow> Columns \<Rightarrow> nat \<Rightarrow> string list
     \<Rightarrow> ImportState \<Rightarrow> ImportState" where
  \<comment> \<open>\<open>for (let i = 1; i < lines.length; i++)\<close> over the lines from index \<open>i\<close> on; the clock
      is read anew for every row\<close>
  "rowLoop now today delimiter cm i [] st = st"
| "rowLoop now today delimiter cm i (l # ls) st =
     rowLoop now today delimiter cm (i + 1) ls
       (pushRow st (materializeRow (now i) (today i) cm i (splitCSVLine l delimiter)))"

datatype Outcome =
    NoOp
  | NoValidData
  | ImportSuccessful ImportState char

definition parseCSV :: "(nat \<Rightarrow> nat) \<Rightarrow> (nat \<Rightarrow> string) \<Rightarrow> string \<Rightarrow> Outcome" where
  \<comment> \<open>\<open>ImportSuccessful st d\<close>: \<open>onAddBatchTransactions(newTransactions st)\<close> is called and the
      alert shows the delimiter \<open>d\<close> and the three counts; \<open>NoValidData\<close>: the other alert;
      \<open>NoOp\<close>: the early \<open>return\<close>. No statement of the \<open>try\<close> block can throw on strings,
      so the \<open>catch\<close> branch is never taken.\<close>
  "parseCSV now today csvText =
     (let lines = filter (\<lambda>l. length (trim l) > 0) (split_str (CHR 0x0A) csvText)
      in if length lines = 0 then NoOp
         else
           (let delimiter = detectDelimiter csvText;
                headers = map toLowerCase (splitCSVLine (lines ! 0) delimiter);
                st = rowLoop now today delimiter (mapColumns headers) 1 (tl lines)
                       \<lparr>newTransactions = [], parsedCount = 0, revCount = 0, expCount = 0\<rparr>
            in if length (newTransactions st) > 0 then ImportSuccessful st delimiter
               else NoValidData))"

definition batchOf :: "Outcome \<Rightarrow> Transaction list" where
  \<comment> \<open>the Transactions handed to \<open>onAddBatchTransactions\<close>\<close>
  "batchOf out = (case out of ImportSuccessful st d \<Rightarrow> newTransactions st | _ \<Rightarrow> [])"

definition handleAddBatchTransactions :: "Transaction list \<Rightarrow> Transaction list \<Rightarrow> Transaction list" where
  \<comment> \<open>App.tsx: \<open>setTransactions(prev => [...newTxs, ...prev])\<close>\<close>
  "handleAddBatchTransactions newTxs prev = newTxs @ prev"

section \<open>Journal import and reports (AccountingView)\<close>

definition cleanNumber :: "string \<Rightarrow> number" where
  \<comment> \<open>\<open>parseFloat(str.replace(/[^0-9.-]+/g, "")) || 0\<close>\<close>
  "cleanNumber str =
     (case parseFloat (filter (\<lambda>c. isDigit c \<or> c = CHR ''.'' \<or> c = CHR ''-'') str) of
        None \<Rightarrow> 0
      | Some v \<Rightarrow> v)"

definition mapAccount :: "string \<Rightarrow> string" where
  \<comment> \<open>"Smart Account Mapping"\<close>
  "mapAccount desc =
     (let d = toLowerCase desc
      in if includes_str d ''revenue'' \<or> includes_str d ''sales'' then ''4000''
         else if includes_str d ''bank'' \<or> includes_str d ''bca'' then ''1002''
         else if includes_str d ''cash'' then ''1001''
         else if includes_str d ''maintenance'' \<or> includes_str d ''service'' then ''5001''
         else if includes_str d ''rent'' \<and> includes_str d ''expense'' then ''5002''
         else ''9999'')"

datatype error = TypeError

definition objectPrototypeKeys :: "string list" where
  \<comment> \<open>the names every object literal inherits: \<open>tempGroups[ref]\<close> is truthy for them though no
      group was stored, and \<open>tempGroups[ref].lines.push\<close> then throws\<close>
  "objectPrototypeKeys =
     [''constructor'', ''__defineGetter__'', ''__defineSetter__'', ''hasOwnProperty'',
      ''__lookupGetter__'', ''__lookupSetter__'', ''isPrototypeOf'', ''propertyIsEnumerable'',
      ''toString'', ''valueOf'', ''__proto__'', ''toLocaleString'']"

definition pushLine :: "JournalLine \<Rightarrow> JournalEntry \<Rightarrow> JournalEntry" where
  "pushLine l e = e\<lparr>lines := lines e @ [l]\<rparr>"

definition groupRow ::
  "string \<Rightarrow> nat \<Rightarrow> string \<Rightarrow> (string \<times> JournalEntry) list
     \<Rightarrow> error + (string \<times> JournalEntry) list" where
  \<comment> \<open>one pass of the loop body on line \<open>l\<close>; \<open>tempGroups\<close> is the list of its own keys in the
      order of their creation; \<open>sfx\<close> is \<open>Math.random().toString(36).substr(2, 5)\<close>\<close>
  "groupRow sfx i l tempGroups =
     (let row = trim l
      in if row = [] then Inr tempGroups
         else
           (let cols = map trim (split_str (CHR '','') row)
            in if length cols < 5 then Inr tempGroups
               else
                 (let date0 = cols ! 0; ref = cols ! 1; descRaw = cols ! 2;
                      desc = removeAll_char (CHR 0x22) descRaw;
                      line = \<lparr>accountId = mapAccount desc, accountName = desc,
                              debit = cleanNumber (cols ! 3), credit = cleanNumber (cols ! 4)\<rparr>
                  in if ref \<in> set objectPrototypeKeys then Inl TypeError
                     else if map_of tempGroups ref = None then
                       Inr (tempGroups @
                            [(ref, \<lparr>entryId = ''CSV-'' @ ref @ ''-'' @ sfx, entryDate = date0,
                                    entryReference = ref,
                                    entryDescription = ''Imported Transaction'',
                                    lines = [line]\<rparr>)])
                     else
                       Inr (map (\<lambda>(k, e). if k = ref then (k, pushLine line e) else (k, e))
                              tempGroups))))"

fun groupLoop ::
  "(nat \<Rightarrow> string) \<Rightarrow> nat \<Rightarrow> string list \<Rightarrow> (string \<times> JournalEntry) list
     \<Rightarrow> error + (string \<times> JournalEntry) list" where
  "groupLoop rand i [] tempGroups = Inr tempGroups"
| "groupLoop rand i (l # ls) tempGroups =
     (case groupRow (rand i) i l tempGroups of
        Inl e \<Rightarrow> Inl e
      | Inr g \<Rightarrow> groupLoop rand (i + 1) ls g)"

definition isArrayIndex :: "string \<Rightarrow> bool" where
  \<comment> \<open>a key that is the canonical numeral of an integer below \<open>2^32 - 1\<close>\<close>
  "isArrayIndex k =
     (k \<noteq> [] \<and> list_all isDigit k \<and> (k = ''0'' \<or> hd k \<noteq> CHR ''0'')
      \<and> digitsValue 0 k < 4294967295)"

definition objectValues :: "(string \<times> JournalEntry) list \<Rightarrow> JournalEntry list" where
  \<comment> \<open>\<open>Object.values\<close>: integer keys first, in ascending order, then the other keys in the
      order of their creation\<close>
  "objectValues g =
     map snd (sort_key (\<lambda>p. digitsValue 0 (fst p)) (filter (\<lambda>p. isArrayIndex (fst p)) g)
              @ filter (\<lambda>p. \<not> isArrayIndex (fst p)) g)"

definition parseJournalCSV :: "(nat \<Rightarrow> string) \<Rightarrow> string \<Rightarrow> error + JournalEntry list" where
  \<comment> \<open>\<open>parseCSV\<close> of AccountingView up to \<open>newEntries\<close>; \<open>Inl\<close> is the \<open>catch\<close> branch\<close>
  "parseJournalCSV rand csvText =
     (case groupLoop rand 1 (drop 1 (split_str (CHR 0x0A) csvText)) [] of
        Inl e \<Rightarrow> Inl e
      | Inr g \<Rightarrow> Inr (objectValues g))"

definition setUploadedEntries :: "JournalEntry list \<Rightarrow> error + JournalEntry list \<Rightarrow> JournalEntry list" where
  \<comment> \<open>\<open>setUploadedEntries(prev => [...prev, ...newEntries])\<close>; nothing is stored after a throw\<close>
  "setUploadedEntries prev r = (case r of Inl e \<Rightarrow> prev | Inr newEntries \<Rightarrow> prev @ newEntries)"

definition allJournalEntries ::
  "(string \<Rightarrow> int) \<Rightarrow> JournalEntry list \<Rightarrow> Transaction list \<Rightarrow> JournalEntry list" where
  \<comment> \<open>\<open>[...uploadedEntries, ...systemJournalEntries].sort(...)\<close>, latest date first; the sort is
      stable; \<open>getTime d\<close> is \<open>new Date(d).getTime()\<close> of a valid date\<close>
  "allJournalEntries getTime uploadedEntries transactions =
     sort_key (\<lambda>e. - getTime (entryDate e)) (uploadedEntries @ systemJournalEntries transactions)"

record IncomeStatement =
  revenue :: number
  cogs :: number
  opex :: number
  netIncome :: number

definition addLine :: "JournalLine \<Rightarrow> number \<times> number \<times> number \<Rightarrow> number \<times> number \<times> number" where
  \<comment> \<open>the body of the inner \<open>forEach\<close> on the variables \<open>(revenue, cogs, opex)\<close>\<close>
  "addLine line acc =
     (case acc of (r, c, ox) \<Rightarrow>
        (if accountId line = ''4000'' then r + credit line else r,
         if accountId line = ''5001'' then c + debit line else c,
         if accountId line = ''5002'' then ox + debit line else ox))"

definition incomeStatement :: "JournalEntry list \<Rightarrow> IncomeStatement" where
  \<comment> \<open>the three totals start at 0 and grow line by line, in the order of the entries and of
      their lines\<close>
  "incomeStatement entries =
     (case fold (\<lambda>entry acc. fold addLine (lines entry) acc) entries (0, 0, 0) of
        (r, c, ox) \<Rightarrow> \<lparr>revenue = r, cogs = c, opex = ox, netIncome = r - c - ox\<rparr>)"

section \<open>Transaction store and uploaded entries (App, TransactionManager, AccountingView)\<close>

record FormData =
  formDate :: string
  formCategory :: Category
  formAmount :: "number option"
  formDescription :: string
  formReference :: string
  formContraAccount :: "string option"

definition handleSubmit :: "nat \<Rightarrow> nat \<Rightarrow> FormData \<Rightarrow> Transaction" where
  \<comment> \<open>\<open>newTx\<close> of the form. The category is one of the values of the select box. An
      undefined text field is the empty string (\<open>|| ''\<close> treats both alike);
      \<open>formAmount\<close> is \<open>None\<close> for an undefined or \<open>NaN\<close> amount, which
      \<open>|| 0\<close> replaces by \<open>0\<close>. \<open>now\<close> is \<open>Date.now()\<close> and \<open>rnd\<close> is
      \<open>Math.floor(Math.random() * 1000)\<close>.\<close>
  "handleSubmit now rnd formData =
     (let a = (case formAmount formData of None \<Rightarrow> 0 | Some v \<Rightarrow> v)
      in \<lparr>id' = ''TX-'' @ showNat now,
          date = formDate formData,
          description = formDescription formData,
          category = formCategory formData,
          amount = (if formCategory formData = Expense \<or> formCategory formData = Asset
                    then - \<bar>a\<bar> else \<bar>a\<bar>),
          reference = (if formReference formData = [] then ''REF-'' @ showNat rnd
                       else formReference formData),
          contraAccount = formContraAccount formData\<rparr>)"

definition handleAddTransaction :: "Transaction \<Rightarrow> Transaction list \<Rightarrow> Transaction list" where
  \<comment> \<open>App.tsx: \<open>setTransactions(prev => [newTx, ...prev])\<close>\<close>
  "handleAddTransaction newTx prev = newTx # prev"

datatype StoreEvent =
    Submit nat nat FormData
  | ImportFile "nat \<Rightarrow> nat" "nat \<Rightarrow> string" string

fun storeStep :: "StoreEvent \<Rightarrow> Transaction list \<Rightarrow> Transaction list" where
  \<comment> \<open>the two ways in which the transaction list of App.tsx changes\<close>
  "storeStep (Submit now rnd formData) prev = handleAddTransaction (handleSubmit now rnd formData) prev"
| "storeStep (ImportFile now today csvText) prev =
     (case parseCSV now today csvText of
        ImportSuccessful st d \<Rightarrow> handleAddBatchTransactions (newTransactions st) prev
      | _ \<Rightarrow> prev)"

definition runStore :: "StoreEvent list \<Rightarrow> Transaction list" where
  \<comment> \<open>the transaction list after a sequence of submissions and imports; it starts as
      \<open>MOCK_TRANSACTIONS\<close>\<close>
  "runStore events = fold storeStep events MOCK_TRANSACTIONS"

definition runUploads :: "((nat \<Rightarrow> string) \<times> string) list \<Rightarrow> JournalEntry list" where
  \<comment> \<open>\<open>uploadedEntries\<close> of AccountingView after a sequence of journal files, each with the
      random suffixes drawn for it; it starts empty\<close>
  "runUploads files =
     fold (\<lambda>f prev. setUploadedEntries prev (parseJournalCSV (fst f) (snd f))) files []"

section \<open>Facts about the string functions\<close>

lemma startsWith_prefix: "startsWith s p \<longleftrightarrow> prefix p s"
  by (induction s p rule: startsWith.induct) auto

lemma includes_str_sublist: "includes_str s k \<longleftrightarrow> sublist k s"
proof (induction s)
  case Nil
  then show ?case by simp
next
  case (Cons c s)
  then show ?case
    by (simp add: startsWith_prefix sublist_Cons_right)
qed

lemma set_trim: "set (trim s) \<subseteq> set s"
  by (auto simp: trim_def dest!: set_dropWhileD)

lemma set_stripOneSpace: "set (stripOneSpace s) \<subseteq> set s"
  by (auto simp: stripOneSpace_def split: list.splits)

lemma set_stripCurrency: "set (stripCurrency s) \<subseteq> set s"
proof -
  have tl: "set (tl r) \<subseteq> set r" for r :: string
    by (cases r) auto
  have dr: "set (drop n s) \<subseteq> set s" for n
    by (rule set_drop_subset)
  show ?thesis
    unfolding stripCurrency_def Let_def
    using set_stripOneSpace [of "drop 2 s"] set_stripOneSpace [of "tl (drop 2 s)"]
      set_stripOneSpace [of "drop 3 s"] tl [of "drop 2 s"] dr [of 2] dr [of 3]
    by (auto split: if_splits)
qed

lemma set_replaceFirst: "set (replaceFirst a b s) \<subseteq> insert b (set s)"
  by (induction s) auto

lemma set_separators: "set (separators s) \<subseteq> insert (CHR ''.'') (set s)"
  using set_replaceFirst [of "CHR '',''" "CHR ''.''" s]
    set_replaceFirst [of "CHR '',''" "CHR ''.''" "removeAll_char (CHR ''.'') s"]
  by (auto simp: separators_def removeAll_char_def Let_def)

lemma takeWhile_none: "\<forall>c\<in>set s. \<not> P c \<Longrightarrow> takeWhile P s = []"
  by (cases s) auto

lemma parseFloat_no_digit:
  assumes "\<forall>c\<in>set s. \<not> isDigit c"
  shows "parseFloat s = None"
proof -
  define u where "u = (if startsWith s ''-'' \<or> startsWith s ''+'' then tl s else s)"
  define r where "r = dropWhile isDigit u"
  have "set (tl s) \<subseteq> set s"
    by (cases s) auto
  then have u: "\<forall>c\<in>set u. \<not> isDigit c"
    using assms by (auto simp: u_def)
  then have ip: "takeWhile isDigit u = []"
    by (rule takeWhile_none)
  have "set r \<subseteq> set u"
    unfolding r_def by (auto dest: set_dropWhileD)
  moreover have "set (tl r) \<subseteq> set r"
    by (cases r) auto
  ultimately have "\<forall>c\<in>set (tl r). \<not> isDigit c"
    using u by blast
  then have fp: "takeWhile isDigit (tl r) = []"
    by (rule takeWhile_none)
  show ?thesis
    unfolding parseFloat_def Let_def
    using ip fp by (simp only: u_def [symmetric] r_def [symmetric] if_True if_False simp_thms if_cancel)
qed

lemma parseCurrency_no_digit:
  assumes "\<forall>c\<in>set str. \<not> isDigit c"
  shows "parseCurrency str = 0"
proof (cases "str = []")
  case True
  then show ?thesis by (simp add: parseCurrency_def)
next
  case False
  define c0 where "c0 = trim str"
  define c1 where "c1 = (if startsWith c0 ''('' \<and> endsWith c0 '')'' then butlast (tl c0) else c0)"
  define c2 where "c2 = filter (\<lambda>c. \<not> isWhiteSpace c) (stripCurrency c1)"
  define c3 where "c3 = (if startsWith c2 ''-'' then tl c2 else c2)"
  define c4 where "c4 = filter (\<lambda>c. isDigit c \<or> c = CHR ''.'') (separators c3)"
  have s0: "set c0 \<subseteq> set str"
    unfolding c0_def by (rule set_trim)
  have "set (butlast (tl c0)) \<subseteq> set c0"
    by (cases c0) (auto dest: in_set_butlastD)
  then have s1: "set c1 \<subseteq> set str"
    using s0 by (auto simp: c1_def)
  have s2: "set c2 \<subseteq> set str"
    using s1 set_stripCurrency [of c1] by (auto simp: c2_def)
  have "set (tl c2) \<subseteq> set c2"
    by (cases c2) auto
  then have s3: "set c3 \<subseteq> set str"
    using s2 by (auto simp: c3_def)
  have s4: "set c4 \<subseteq> insert (CHR ''.'') (set str)"
    using s3 set_separators [of c3] by (auto simp: c4_def)
  have "\<not> isDigit (CHR ''.'')"
    by (simp add: isDigit_def)
  then have "\<forall>c\<in>set c4. \<not> isDigit c"
    using s4 assms by auto
  then have "parseFloat c4 = None"
    by (rule parseFloat_no_digit)
  then show ?thesis
    using False unfolding parseCurrency_def Let_def c4_def c3_def c2_def c1_def c0_def
    by simp
qed

lemmas str_defs = trim_def isWhiteSpace_def toLowerCase_def toLowerChar_def setBit5_def endsWith_def
  removeAll_char_def isDigit_def stripOneSpace_def stripCurrency_def indexOf_def lastIndexOf_def

lemma parseCurrency_eval:
  assumes "str \<noteq> []" "trim str = c0"
    "(if startsWith c0 ''('' \<and> endsWith c0 '')'' then butlast (tl c0) else c0) = c1"
    "filter (\<lambda>c. \<not> isWhiteSpace c) (stripCurrency c1) = c2"
    "(if startsWith c2 ''-'' then tl c2 else c2) = c3"
    "filter (\<lambda>c. isDigit c \<or> c = CHR ''.'') (separators c3) = c4"
    "parseFloat c4 = r"
    "(case r of None \<Rightarrow> 0
      | Some v \<Rightarrow> if (startsWith c0 ''('' \<and> endsWith c0 '')'') \<or> startsWith c2 ''-'' then - v else v) = res"
  shows "parseCurrency str = res"
  using assms unfolding parseCurrency_def Let_def by auto

section \<open>The journal derivation\<close>

text \<open>
  C1. Every Transaction of category Revenue, Expense or Asset is mapped by the system
  journal derivation to an entry whose debits and credits have the same sum.
\<close>

theorem balance_invariant:
  assumes "i < length transactions"
    and "category (transactions ! i) \<in> {Revenue, Expense, Asset}"
  shows "sum_list (map debit (lines (systemJournalEntries transactions ! i)))
       = sum_list (map credit (lines (systemJournalEntries transactions ! i)))"
  using assms
  by (auto simp: systemJournalEntries_def journalEntryOf_def journalLines_def Let_def)

theorem balance_invariant_witness:
  "1 < length MOCK_TRANSACTIONS
   \<and> category (MOCK_TRANSACTIONS ! 1) \<in> {Revenue, Expense, Asset}
   \<and> sum_list (map debit (lines (systemJournalEntries MOCK_TRANSACTIONS ! 1)))
     = sum_list (map credit (lines (systemJournalEntries MOCK_TRANSACTIONS ! 1)))"
proof -
  have h1: "1 < length MOCK_TRANSACTIONS"
    by (simp add: MOCK_TRANSACTIONS_def)
  have h2: "category (MOCK_TRANSACTIONS ! 1) \<in> {Revenue, Expense, Asset}"
    by (simp add: MOCK_TRANSACTIONS_def)
  from balance_invariant [OF h1 h2] h1 h2 show ?thesis
    by (intro conjI)
qed

text \<open>
  C2, as stated: in every line of a derived entry exactly one of debit and credit is zero,
  also when the amount of the Transaction is 0. The Transaction below is the one the CSV
  import builds from the row \<open>2024-01-01,R1,Hello\<close> under the header
  \<open>date,ref,description,amount\<close>; both fields of its first line are zero.
\<close>

theorem line_xor_counterexample:
  "debit (lines (journalEntryOf
      \<lparr>id' = ''TX-CSV-1700-1'', date = ''2024-01-01'', description = ''Hello'',
       category = Revenue, amount = 0, reference = ''R1'', contraAccount = Some ''1002''\<rparr>) ! 0) = 0
   \<and> credit (lines (journalEntryOf
      \<lparr>id' = ''TX-CSV-1700-1'', date = ''2024-01-01'', description = ''Hello'',
       category = Revenue, amount = 0, reference = ''R1'', contraAccount = Some ''1002''\<rparr>) ! 0) = 0"
  by (simp add: journalEntryOf_def journalLines_def)

text \<open>
  C2, amended: in every line of the entry derived from a Transaction whose amount is not 0,
  exactly one of debit and credit is zero; when the amount is 0, both are zero.
\<close>

theorem line_xor_nonzero:
  assumes "l \<in> set (lines (journalEntryOf tx))"
  shows "(amount tx \<noteq> 0 \<longrightarrow> (debit l = 0) \<noteq> (credit l = 0))
       \<and> (amount tx = 0 \<longrightarrow> debit l = 0 \<and> credit l = 0)"
  using assms
  by (auto simp: journalEntryOf_def journalLines_def Let_def split: if_splits)

theorem line_xor_nonzero_witness:
  "(\<lparr>accountId = ''1002'', accountName = ''Bank BCA'', debit = 450000, credit = 0\<rparr>
      \<in> set (lines (journalEntryOf (MOCK_TRANSACTIONS ! 0)))
    \<and> amount (MOCK_TRANSACTIONS ! 0) \<noteq> 0
    \<and> (debit \<lparr>accountId = ''1002'', accountName = ''Bank BCA'', debit = 450000, credit = 0\<rparr> = 0)
      \<noteq> (credit \<lparr>accountId = ''1002'', accountName = ''Bank BCA'', debit = 450000, credit = 0\<rparr> = 0))
   \<and> (\<lparr>accountId = ''4000'', accountName = ''Rental Revenue'', debit = 0, credit = 0\<rparr>
      \<in> set (lines (journalEntryOf ((MOCK_TRANSACTIONS ! 0)\<lparr>amount := 0\<rparr>)))
    \<and> amount ((MOCK_TRANSACTIONS ! 0)\<lparr>amount := 0\<rparr>) = 0
    \<and> debit \<lparr>accountId = ''4000'', accountName = ''Rental Revenue'', debit = 0, credit = 0\<rparr> = 0
    \<and> credit \<lparr>accountId = ''4000'', accountName = ''Rental Revenue'', debit = 0, credit = 0\<rparr> = 0)"
proof -
  let ?l1 = "\<lparr>accountId = ''1002'', accountName = ''Bank BCA'', debit = 450000, credit = 0\<rparr>"
  let ?l2 = "\<lparr>accountId = ''4000'', accountName = ''Rental Revenue'', debit = 0, credit = 0\<rparr>"
  have h1: "?l1 \<in> set (lines (journalEntryOf (MOCK_TRANSACTIONS ! 0)))"
    by (simp add: MOCK_TRANSACTIONS_def journalEntryOf_def journalLines_def)
  have n1: "amount (MOCK_TRANSACTIONS ! 0) \<noteq> 0"
    by (simp add: MOCK_TRANSACTIONS_def)
  have h2: "?l2 \<in> set (lines (journalEntryOf ((MOCK_TRANSACTIONS ! 0)\<lparr>amount := 0\<rparr>)))"
    by (simp add: MOCK_TRANSACTIONS_def journalEntryOf_def journalLines_def)
  have n2: "amount ((MOCK_TRANSACTIONS ! 0)\<lparr>amount := 0\<rparr>) = 0"
    by simp
  from line_xor_nonzero [OF h1] n1 have c1: "(debit ?l1 = 0) \<noteq> (credit ?l1 = 0)"
    by blast
  from line_xor_nonzero [OF h2] n2 have c2: "debit ?l2 = 0 \<and> credit ?l2 = 0"
    by blast
  from h1 n1 c1 h2 n2 c2 show ?thesis
    by blast
qed

text \<open>
  C8. The entry derived from an Expense Transaction has two lines: first a debit of
  \<open>abs(amount)\<close> on account 5001 when the description, in lower case, contains
  "maintenance" or "parts", and on 5002 otherwise; then a credit of \<open>abs(amount)\<close> on
  account 2000 when \<open>contraAccount\<close> is "2000", and on 1002 otherwise.
\<close>

theorem expense_posting:
  assumes "category tx = Expense"
  shows "map accountId (lines (journalEntryOf tx))
           = [if sublist ''maintenance'' (toLowerCase (description tx))
                 \<or> sublist ''parts'' (toLowerCase (description tx))
              then ''5001'' else ''5002'',
              if contraAccount tx = Some ''2000'' then ''2000'' else ''1002'']
       \<and> map debit (lines (journalEntryOf tx)) = [\<bar>amount tx\<bar>, 0]
       \<and> map credit (lines (journalEntryOf tx)) = [0, \<bar>amount tx\<bar>]"
  using assms
  by (simp add: journalEntryOf_def journalLines_def Let_def includes_str_sublist)

theorem expense_posting_witness:
  "category (MOCK_TRANSACTIONS ! 1) = Expense
   \<and> map accountId (lines (journalEntryOf (MOCK_TRANSACTIONS ! 1))) = [''5001'', ''2000'']
   \<and> map debit (lines (journalEntryOf (MOCK_TRANSACTIONS ! 1))) = [2500000, 0]
   \<and> map credit (lines (journalEntryOf (MOCK_TRANSACTIONS ! 1))) = [0, 2500000]"
proof -
  have h: "category (MOCK_TRANSACTIONS ! 1) = Expense"
    by (simp add: MOCK_TRANSACTIONS_def)
  have d: "toLowerCase (description (MOCK_TRANSACTIONS ! 1))
             = ''purchase parts (tires) - mitra motor''"
    by (simp add: MOCK_TRANSACTIONS_def toLowerCase_def toLowerChar_def setBit5_def)
  have p: "sublist ''parts'' ''purchase parts (tires) - mitra motor''"
    unfolding includes_str_sublist [symmetric] by simp
  have c: "contraAccount (MOCK_TRANSACTIONS ! 1) = Some ''2000''"
    and a: "\<bar>amount (MOCK_TRANSACTIONS ! 1)\<bar> = 2500000"
    by (simp_all add: MOCK_TRANSACTIONS_def)
  from expense_posting [OF h] h show ?thesis
    unfolding d c a using p by simp
qed

section \<open>The currency parser\<close>

text \<open>
  C5. The parser gives 1500000 for "1.500.000,00" and for "1,500,000.00", 50000 for
  "Rp 50.000", -50000 for "(50.000)" and 0 for "abc". It is a total function (no input makes
  it raise), and an input that cannot be parsed gives 0: every input without a digit does,
  and so does ",..5", whose cleaned form "..5" is not a number.
\<close>

theorem normalizer_canonical:
  "parseCurrency ''1.500.000,00'' = 1500000
   \<and> parseCurrency ''1,500,000.00'' = 1500000
   \<and> parseCurrency ''Rp 50.000'' = 50000
   \<and> parseCurrency ''(50.000)'' = - 50000
   \<and> parseCurrency ''abc'' = 0
   \<and> parseCurrency '',..5'' = 0
   \<and> (\<forall>str. filter isDigit str = [] \<longrightarrow> parseCurrency str = 0)"
proof (intro conjI allI impI)
  show "parseCurrency ''1.500.000,00'' = 1500000"
    by (rule parseCurrency_eval) (simp add: separators_def parseFloat_def str_defs)+
  show "parseCurrency ''1,500,000.00'' = 1500000"
    by (rule parseCurrency_eval) (simp add: separators_def parseFloat_def str_defs)+
  show "parseCurrency ''Rp 50.000'' = 50000"
    by (rule parseCurrency_eval) (simp add: separators_def parseFloat_def str_defs)+
  show "parseCurrency ''(50.000)'' = - 50000"
    by (rule parseCurrency_eval) (simp add: separators_def parseFloat_def str_defs)+
  show "parseCurrency ''abc'' = 0"
    by (rule parseCurrency_eval) (simp add: separators_def parseFloat_def str_defs)+
  show "parseCurrency '',..5'' = 0"
    by (rule parseCurrency_eval) (simp add: separators_def parseFloat_def str_defs)+
  show "parseCurrency str = 0" if "filter isDigit str = []" for str
    using that by (intro parseCurrency_no_digit) (simp add: filter_empty_conv)
qed

theorem normalizer_canonical_witness:
  "filter isDigit ''Rp -,--'' = [] \<and> parseCurrency ''Rp -,--'' = 0"
proof -
  have h: "filter isDigit ''Rp -,--'' = []"
    by (simp add: isDigit_def)
  from normalizer_canonical have "parseCurrency ''Rp -,--'' = 0"
    using h by blast
  with h show ?thesis
    by (intro conjI)
qed

section \<open>The tabular reader\<close>

lemma length_split_str: "length (split_str d s) = Suc (countChar d s)"
  by (induction s) (auto simp: countChar_def split: list.splits)

lemma split_str_not_Nil: "split_str d s \<noteq> []"
  using length_split_str [of d s] by auto

lemma hd_split_str: "hd (split_str d s) = takeWhile (\<lambda>c. c \<noteq> d) s"
  using split_str_not_Nil [of d] by (induction s) (auto split: list.splits)

lemma first_line: "split_str d s ! 0 = takeWhile (\<lambda>c. c \<noteq> d) s"
  using split_str_not_Nil [of d s] by (simp add: hd_conv_nth [symmetric] hd_split_str)

lemma single_line: "length (split_str d s) < 2 \<longleftrightarrow> d \<notin> set s"
  by (auto simp: length_split_str countChar_def filter_empty_conv)

text \<open>
  C6, as stated: the delimiter that is strictly dominant in the first line is returned, and
  comma otherwise. In the first line below tab and semicolon occur once each and comma
  never, so none is strictly dominant; the code returns the semicolon.
\<close>

theorem detectDelimiter_tie_counterexample:
  "countChar (CHR 0x09) (''a;b'' @ [CHR 0x09] @ ''c'') = 1
   \<and> countChar (CHR '';'') (''a;b'' @ [CHR 0x09] @ ''c'') = 1
   \<and> countChar (CHR '','') (''a;b'' @ [CHR 0x09] @ ''c'') = 0
   \<and> detectDelimiter (''a;b'' @ [CHR 0x09] @ ''c'' @ [CHR 0x0A] @ ''1;2'' @ [CHR 0x09] @ ''3'')
     = CHR '';''"
  by (simp add: detectDelimiter_def countChar_def)

text \<open>
  C6, amended: a text without a line break gives comma. Otherwise the occurrences of tab,
  semicolon and comma in the first line are counted: tab is returned when the tabs outnumber
  both the commas and the semicolons; otherwise semicolon when the semicolons outnumber the
  commas (also when the tabs are as many as the semicolons); otherwise comma. A first line
  "a;b;c" gives semicolon, one with tabs gives tab, "a,b,c" gives comma, and a text of one
  line or the empty text gives comma.
\<close>

theorem detectDelimiter_rule:
  "detectDelimiter text =
     (if CHR 0x0A \<notin> set text then CHR '',''
      else
        (let line = takeWhile (\<lambda>c. c \<noteq> CHR 0x0A) text
         in if countChar (CHR 0x09) line > countChar (CHR '','') line
               \<and> countChar (CHR 0x09) line > countChar (CHR '';'') line
            then CHR 0x09
            else if countChar (CHR '';'') line > countChar (CHR '','') line then CHR '';''
            else CHR '',''))
   \<and> detectDelimiter (''a;b;c'' @ [CHR 0x0A] @ ''1;2;3'') = CHR '';''
   \<and> detectDelimiter (''a'' @ [CHR 0x09] @ ''b'' @ [CHR 0x09] @ ''c'' @ [CHR 0x0A] @ ''1'') = CHR 0x09
   \<and> detectDelimiter (''a,b,c'' @ [CHR 0x0A] @ ''1,2,3'') = CHR '',''
   \<and> detectDelimiter ''a;b;c'' = CHR '',''
   \<and> detectDelimiter [] = CHR '',''"
proof (intro conjI)
  show "detectDelimiter text =
     (if CHR 0x0A \<notin> set text then CHR '',''
      else
        (let line = takeWhile (\<lambda>c. c \<noteq> CHR 0x0A) text
         in if countChar (CHR 0x09) line > countChar (CHR '','') line
               \<and> countChar (CHR 0x09) line > countChar (CHR '';'') line
            then CHR 0x09
            else if countChar (CHR '';'') line > countChar (CHR '','') line then CHR '';''
            else CHR '',''))"
    unfolding detectDelimiter_def Let_def first_line single_line by simp
qed (simp_all add: detectDelimiter_def countChar_def)

section \<open>Evaluating the import on concrete files\<close>

lemma parseCSV_eval:
  assumes "filter (\<lambda>l. length (trim l) > 0) (split_str (CHR 0x0A) csvText) = h # rows"
    and "detectDelimiter csvText = d"
    and "mapColumns (map toLowerCase (splitCSVLine h d)) = cm"
    and "rowLoop now today d cm 1 rows
           \<lparr>newTransactions = [], parsedCount = 0, revCount = 0, expCount = 0\<rparr> = st"
    and "newTransactions st \<noteq> []"
  shows "parseCSV now today csvText = ImportSuccessful st d"
  using assms unfolding parseCSV_def Let_def by auto

lemma header_dc:
  "mapColumns (map toLowerCase (splitCSVLine ''date,ref,description,debit,credit'' (CHR '','')))
     = \<lparr>idxDate = 0, idxRef = 1, idxDesc = 2, idxDebit = 3, idxCredit = 4, idxAmount = -1\<rparr>"
  by (simp add: mapColumns_def getIdx_def findIndex_def splitCSVLine_def str_defs)


lemma parseCurrency_500: "parseCurrency ''500'' = 500"
  by (rule parseCurrency_eval) (simp add: separators_def parseFloat_def str_defs)+

lemma parseCurrency_0: "parseCurrency ''0'' = 0"
  by (rule parseCurrency_eval) (simp add: separators_def parseFloat_def str_defs)+


lemma parseCurrency_700: "parseCurrency ''700'' = 700"
  by (rule parseCurrency_eval) (simp add: separators_def parseFloat_def str_defs)+

lemma parseCurrency_2500000: "parseCurrency ''2500000'' = 2500000"
  by (rule parseCurrency_eval) (simp add: separators_def parseFloat_def str_defs)+

lemma showNat_1700: "showNat 1700 = ''1700''"
  by (simp add: showNat.simps)

lemma showNat_1: "showNat (Suc 0) = ''1''"
  by (simp add: showNat.simps)

lemma row_motor:
  "materializeRow n t
     \<lparr>idxDate = 0, idxRef = 1, idxDesc = 2, idxDebit = 3, idxCredit = 4, idxAmount = -1\<rparr> i
     [''2024-01-01'', ''R1'', ''Beli motor'', ''500'', ''0'']
   = Some \<lparr>id' = ''TX-CSV-'' @ showNat n @ ''-'' @ showNat i, date = ''2024-01-01'',
            description = ''Beli motor'', category = Asset, amount = - 500, reference = ''R1'',
            contraAccount = Some ''1002''\<rparr>"
  by (simp add: materializeRow_def rowDesc_def val_def resolveAmount_def refineCategory_def
      parseCurrency_500 parseCurrency_0 toLowerCase_def toLowerChar_def setBit5_def)

section \<open>The transaction materializer\<close>

lemma resolveAmount_zero: "fst (resolveAmount cm cols) = 0 \<Longrightarrow> snd (resolveAmount cm cols) = Revenue"
  by (auto simp: resolveAmount_def Let_def split: if_splits)

lemma materializeRow_Some:
  assumes "materializeRow now today cm i cols = Some tx"
  shows "amount tx = fst (resolveAmount cm cols)"
    and "contraAccount tx = Some ''1002''"
    and "description tx
           = (if rowDesc cm cols = [] then ''Imported Transaction'' else rowDesc cm cols)"
    and "category tx
           = refineCategory (fst (resolveAmount cm cols)) (snd (resolveAmount cm cols))
               (rowDesc cm cols)"
  using assms by (auto simp: materializeRow_def Let_def split: if_splits)

lemma no_keyword_default:
  "\<not> includes_str (toLowerCase ''Imported Transaction'') ''asset''"
  "\<not> includes_str (toLowerCase ''Imported Transaction'') ''aset''"
  "\<not> includes_str (toLowerCase ''Imported Transaction'') ''motor''"
  "\<not> includes_str (toLowerCase ''Imported Transaction'') ''unit''"
  by (simp_all add: toLowerCase_def toLowerChar_def setBit5_def)

text \<open>
  C4, as stated: a row resolved through debit and credit columns takes its category from
  the column that is positive, and the keyword override is not applied to it. The file below
  has both columns; its row has a positive debit and the word "motor" in its description,
  and is materialized as Asset, not Expense.
\<close>

theorem keyword_override_counterexample:
  "parseCSV (\<lambda>i. 1700) (\<lambda>i. ''2026-01-01'')
     (''date,ref,description,debit,credit'' @ [CHR 0x0A] @ ''2024-01-01,R1,Beli motor,500,0'')
   = ImportSuccessful
       \<lparr>newTransactions =
          [\<lparr>id' = ''TX-CSV-1700-1'', date = ''2024-01-01'', description = ''Beli motor'',
             category = Asset, amount = - 500, reference = ''R1'',
             contraAccount = Some ''1002''\<rparr>],
        parsedCount = 1, revCount = 0, expCount = 1\<rparr>
       (CHR '','')"
proof (rule parseCSV_eval)
  show "filter (\<lambda>l. length (trim l) > 0)
          (split_str (CHR 0x0A)
             (''date,ref,description,debit,credit'' @ [CHR 0x0A] @ ''2024-01-01,R1,Beli motor,500,0''))
        = ''date,ref,description,debit,credit'' # [''2024-01-01,R1,Beli motor,500,0'']"
    by (simp add: trim_def isWhiteSpace_def)
  show "detectDelimiter
          (''date,ref,description,debit,credit'' @ [CHR 0x0A] @ ''2024-01-01,R1,Beli motor,500,0'')
        = CHR '',''"
    by (simp add: detectDelimiter_def countChar_def)
  show "mapColumns (map toLowerCase (splitCSVLine ''date,ref,description,debit,credit'' (CHR '','')))
        = \<lparr>idxDate = 0, idxRef = 1, idxDesc = 2, idxDebit = 3, idxCredit = 4, idxAmount = -1\<rparr>"
    by (rule header_dc)
  have cols: "splitCSVLine ''2024-01-01,R1,Beli motor,500,0'' (CHR '','')
                = [''2024-01-01'', ''R1'', ''Beli motor'', ''500'', ''0'']"
    by (simp add: splitCSVLine_def trim_def isWhiteSpace_def)
  show "rowLoop (\<lambda>i. 1700) (\<lambda>i. ''2026-01-01'') (CHR '','')
          \<lparr>idxDate = 0, idxRef = 1, idxDesc = 2, idxDebit = 3, idxCredit = 4, idxAmount = -1\<rparr> 1
          [''2024-01-01,R1,Beli motor,500,0'']
          \<lparr>newTransactions = [], parsedCount = 0, revCount = 0, expCount = 0\<rparr>
        = \<lparr>newTransactions =
            [\<lparr>id' = ''TX-CSV-1700-1'', date = ''2024-01-01'', description = ''Beli motor'',
               category = Asset, amount = - 500, reference = ''R1'',
               contraAccount = Some ''1002''\<rparr>],
           parsedCount = 1, revCount = 0, expCount = 1\<rparr>"
    by (simp add: cols row_motor pushRow_def showNat_1700 showNat_1)
qed simp

text \<open>
  C4, amended: the category refinement is applied to every row, whatever columns resolved
  its amount. The category of a materialized Transaction is Asset when its amount is
  negative and its description, in lower case, contains "asset", "aset", "motor" or "unit",
  Expense when the amount is negative otherwise, and Revenue when the amount is not negative.
\<close>

theorem category_by_sign:
  assumes "materializeRow now today cm i cols = Some tx"
  shows "category tx =
           (if amount tx < 0 then
              (if sublist ''asset'' (toLowerCase (description tx))
                  \<or> sublist ''aset'' (toLowerCase (description tx))
                  \<or> sublist ''motor'' (toLowerCase (description tx))
                  \<or> sublist ''unit'' (toLowerCase (description tx))
               then Asset else Expense)
            else Revenue)"
proof (cases "rowDesc cm cols = []")
  case True
  then have "description tx = ''Imported Transaction''"
    using materializeRow_Some(3) [OF assms] by simp
  moreover have "toLowerCase (rowDesc cm cols) = []"
    using True by (simp add: toLowerCase_def)
  ultimately show ?thesis
    using materializeRow_Some(1,4) [OF assms] no_keyword_default resolveAmount_zero [of cm cols]
    by (auto simp: refineCategory_def Let_def includes_str_sublist)
next
  case False
  then have "description tx = rowDesc cm cols"
    using materializeRow_Some(3) [OF assms] by simp
  then show ?thesis
    using materializeRow_Some(1,4) [OF assms] resolveAmount_zero [of cm cols]
    by (auto simp: refineCategory_def Let_def includes_str_sublist)
qed

theorem category_by_sign_witness:
  "materializeRow 1700 ''2026-01-01''
     \<lparr>idxDate = 0, idxRef = 1, idxDesc = 2, idxDebit = 3, idxCredit = 4, idxAmount = -1\<rparr> 1
     [''2024-01-01'', ''R1'', ''Beli motor'', ''500'', ''0'']
   = Some \<lparr>id' = ''TX-CSV-'' @ showNat 1700 @ ''-'' @ showNat 1, date = ''2024-01-01'',
            description = ''Beli motor'', category = Asset, amount = - 500, reference = ''R1'',
            contraAccount = Some ''1002''\<rparr>
   \<and> sublist ''motor'' (toLowerCase ''Beli motor'')
   \<and> category \<lparr>id' = ''TX-CSV-'' @ showNat 1700 @ ''-'' @ showNat 1, date = ''2024-01-01'',
            description = ''Beli motor'', category = Asset, amount = - 500, reference = ''R1'',
            contraAccount = Some ''1002''\<rparr> = Asset"
proof -
  note h = row_motor [of 1700 "''2026-01-01''" 1]
  have k: "sublist ''motor'' (toLowerCase ''Beli motor'')"
    unfolding includes_str_sublist [symmetric]
    by (simp add: toLowerCase_def toLowerChar_def setBit5_def)
  from category_by_sign [OF h] k h show ?thesis
    by simp
qed

text \<open>
  C10. When a debit and a credit column are both present and the credit of a row is
  positive, the row is materialized with the credit as its amount and the category Revenue,
  whatever its debit holds (a positive debit included).
\<close>

theorem credit_precedence:
  assumes "idxDebit cm \<ge> 0" and "idxCredit cm \<ge> 0"
    and "parseCurrency (val cols (idxCredit cm)) > 0"
  shows "\<exists>tx. materializeRow now today cm i cols = Some tx
              \<and> amount tx = parseCurrency (val cols (idxCredit cm))
              \<and> category tx = Revenue"
  using assms
  by (simp add: materializeRow_def resolveAmount_def refineCategory_def Let_def)

theorem credit_precedence_witness:
  "idxDebit \<lparr>idxDate = 0, idxRef = 1, idxDesc = 2, idxDebit = 3, idxCredit = 4, idxAmount = -1\<rparr> \<ge> 0
   \<and> idxCredit \<lparr>idxDate = 0, idxRef = 1, idxDesc = 2, idxDebit = 3, idxCredit = 4, idxAmount = -1\<rparr> \<ge> 0
   \<and> parseCurrency (val [''2024-06-01'', ''INV-1'', ''Both sides'', ''500'', ''700'']
         (idxDebit \<lparr>idxDate = 0, idxRef = 1, idxDesc = 2, idxDebit = 3, idxCredit = 4, idxAmount = -1\<rparr>)) = 500
   \<and> parseCurrency (val [''2024-06-01'', ''INV-1'', ''Both sides'', ''500'', ''700'']
         (idxCredit \<lparr>idxDate = 0, idxRef = 1, idxDesc = 2, idxDebit = 3, idxCredit = 4, idxAmount = -1\<rparr>)) > 0
   \<and> (\<exists>tx. materializeRow 1700 ''2026-01-01''
               \<lparr>idxDate = 0, idxRef = 1, idxDesc = 2, idxDebit = 3, idxCredit = 4, idxAmount = -1\<rparr> 1
               [''2024-06-01'', ''INV-1'', ''Both sides'', ''500'', ''700''] = Some tx
             \<and> amount tx = 700 \<and> category tx = Revenue)"
proof -
  let ?cm = "\<lparr>idxDate = 0, idxRef = 1, idxDesc = 2, idxDebit = 3, idxCredit = 4, idxAmount = -1\<rparr>"
  let ?cols = "[''2024-06-01'', ''INV-1'', ''Both sides'', ''500'', ''700'']"
  have d: "idxDebit ?cm \<ge> 0" and c: "idxCredit ?cm \<ge> 0"
    by simp_all
  have vd: "parseCurrency (val ?cols (idxDebit ?cm)) = 500"
    by (simp add: val_def parseCurrency_500)
  have vc: "parseCurrency (val ?cols (idxCredit ?cm)) = 700"
    by (simp add: val_def parseCurrency_700)
  then have pc: "parseCurrency (val ?cols (idxCredit ?cm)) > 0"
    by simp
  from credit_precedence [OF d c pc, of 1700 "''2026-01-01''" 1]
  have "\<exists>tx. materializeRow 1700 ''2026-01-01'' ?cm 1 ?cols = Some tx
             \<and> amount tx = 700 \<and> category tx = Revenue"
    unfolding vc .
  with d c vd pc show ?thesis
    by (intro conjI)
qed

lemma rowLoop_materialized:
  assumes "tx \<in> set (newTransactions (rowLoop now today d cm i ls st))"
  shows "tx \<in> set (newTransactions st) \<or> (\<exists>n t j cols. materializeRow n t cm j cols = Some tx)"
  using assms
proof (induction ls arbitrary: i st)
  case Nil
  then show ?case by simp
next
  case (Cons l ls)
  let ?r = "materializeRow (now i) (today i) cm i (splitCSVLine l d)"
  from Cons.prems have "tx \<in> set (newTransactions (rowLoop now today d cm (i + 1) ls (pushRow st ?r)))"
    by simp
  then consider "tx \<in> set (newTransactions (pushRow st ?r))"
    | "\<exists>n t j cols. materializeRow n t cm j cols = Some tx"
    using Cons.IH by blast
  then show ?case
  proof cases
    case 1
    then show ?thesis
      by (cases ?r) (auto simp: pushRow_def)
  next
    case 2
    then show ?thesis by simp
  qed
qed

lemma batch_materialized:
  assumes "tx \<in> set (batchOf (parseCSV now today csvText))"
  shows "\<exists>n t cm j cols. materializeRow n t cm j cols = Some tx"
proof -
  from assms obtain st d where out: "parseCSV now today csvText = ImportSuccessful st d"
    and tx: "tx \<in> set (newTransactions st)"
    by (cases "parseCSV now today csvText") (auto simp: batchOf_def)
  from out obtain cm ls
    where "st = rowLoop now today d cm 1 ls
                  \<lparr>newTransactions = [], parsedCount = 0, revCount = 0, expCount = 0\<rparr>"
    by (auto simp: parseCSV_def Let_def split: if_splits)
  with tx have "tx \<in> set (newTransactions (rowLoop now today d cm 1 ls
                  \<lparr>newTransactions = [], parsedCount = 0, revCount = 0, expCount = 0\<rparr>))"
    by simp
  from rowLoop_materialized [OF this]
  have "\<exists>n t j cols. materializeRow n t cm j cols = Some tx"
    by simp
  then show ?thesis
    by blast
qed


lemma file_parts:
  "parseCSV (\<lambda>i. 1700) (\<lambda>i. ''2026-01-01'')
     (''date,ref,description,debit,credit'' @ [CHR 0x0A]
        @ ''2024-06-02,PO-502,Purchase Parts,2500000,0'')
   = ImportSuccessful
       \<lparr>newTransactions =
          [\<lparr>id' = ''TX-CSV-1700-1'', date = ''2024-06-02'', description = ''Purchase Parts'',
             category = Expense, amount = - 2500000, reference = ''PO-502'',
             contraAccount = Some ''1002''\<rparr>],
        parsedCount = 1, revCount = 0, expCount = 1\<rparr>
       (CHR '','')"
proof (rule parseCSV_eval)
  show "filter (\<lambda>l. length (trim l) > 0)
          (split_str (CHR 0x0A)
             (''date,ref,description,debit,credit'' @ [CHR 0x0A]
                @ ''2024-06-02,PO-502,Purchase Parts,2500000,0''))
        = ''date,ref,description,debit,credit'' # [''2024-06-02,PO-502,Purchase Parts,2500000,0'']"
    by (simp add: trim_def isWhiteSpace_def)
  show "detectDelimiter
          (''date,ref,description,debit,credit'' @ [CHR 0x0A]
             @ ''2024-06-02,PO-502,Purchase Parts,2500000,0'')
        = CHR '',''"
    by (simp add: detectDelimiter_def countChar_def)
  show "mapColumns (map toLowerCase (splitCSVLine ''date,ref,description,debit,credit'' (CHR '','')))
        = \<lparr>idxDate = 0, idxRef = 1, idxDesc = 2, idxDebit = 3, idxCredit = 4, idxAmount = -1\<rparr>"
    by (rule header_dc)
  have cols: "splitCSVLine ''2024-06-02,PO-502,Purchase Parts,2500000,0'' (CHR '','')
                = [''2024-06-02'', ''PO-502'', ''Purchase Parts'', ''2500000'', ''0'']"
    by (simp add: splitCSVLine_def trim_def isWhiteSpace_def)
  have row: "materializeRow 1700 ''2026-01-01''
       \<lparr>idxDate = 0, idxRef = 1, idxDesc = 2, idxDebit = 3, idxCredit = 4, idxAmount = -1\<rparr> (Suc 0)
       [''2024-06-02'', ''PO-502'', ''Purchase Parts'', ''2500000'', ''0'']
     = Some \<lparr>id' = ''TX-CSV-1700-1'', date = ''2024-06-02'', description = ''Purchase Parts'',
              category = Expense, amount = - 2500000, reference = ''PO-502'',
              contraAccount = Some ''1002''\<rparr>"
    by (simp add: materializeRow_def rowDesc_def val_def resolveAmount_def refineCategory_def
        parseCurrency_2500000 parseCurrency_0 toLowerCase_def toLowerChar_def setBit5_def
        showNat_1700 showNat_1)
  show "rowLoop (\<lambda>i. 1700) (\<lambda>i. ''2026-01-01'') (CHR '','')
          \<lparr>idxDate = 0, idxRef = 1, idxDesc = 2, idxDebit = 3, idxCredit = 4, idxAmount = -1\<rparr> 1
          [''2024-06-02,PO-502,Purchase Parts,2500000,0'']
          \<lparr>newTransactions = [], parsedCount = 0, revCount = 0, expCount = 0\<rparr>
        = \<lparr>newTransactions =
            [\<lparr>id' = ''TX-CSV-1700-1'', date = ''2024-06-02'', description = ''Purchase Parts'',
               category = Expense, amount = - 2500000, reference = ''PO-502'',
               contraAccount = Some ''1002''\<rparr>],
           parsedCount = 1, revCount = 0, expCount = 1\<rparr>"
    by (simp add: cols row pushRow_def)
qed simp

text \<open>
  C9. Every Transaction the CSV import hands to the transaction store has
  \<open>contraAccount\<close> "1002"; no line of its derived journal entry is on Accounts Payable
  (2000), and the credit line of an imported Expense is on Bank (1002).
\<close>

theorem import_credits_bank:
  assumes "tx \<in> set (batchOf (parseCSV now today csvText))"
  shows "contraAccount tx = Some ''1002''
       \<and> ''2000'' \<notin> set (map accountId (lines (journalEntryOf tx)))
       \<and> (category tx = Expense \<longrightarrow>
            accountId (lines (journalEntryOf tx) ! 1) = ''1002''
            \<and> credit (lines (journalEntryOf tx) ! 1) = \<bar>amount tx\<bar>)"
proof -
  from batch_materialized [OF assms] obtain n t cm j cols
    where "materializeRow n t cm j cols = Some tx"
    by blast
  then have c: "contraAccount tx = Some ''1002''"
    by (rule materializeRow_Some(2))
  have "''2000'' \<notin> set (map accountId (lines (journalEntryOf tx)))"
    using c by (cases "category tx") (simp_all add: journalEntryOf_def journalLines_def Let_def)
  moreover have "accountId (lines (journalEntryOf tx) ! 1) = ''1002''
      \<and> credit (lines (journalEntryOf tx) ! 1) = \<bar>amount tx\<bar>" if "category tx = Expense"
    using c that by (simp add: journalEntryOf_def journalLines_def Let_def)
  ultimately show ?thesis
    using c by blast
qed

theorem import_credits_bank_witness:
  "\<lparr>id' = ''TX-CSV-1700-1'', date = ''2024-06-02'', description = ''Purchase Parts'',
     category = Expense, amount = - 2500000, reference = ''PO-502'',
     contraAccount = Some ''1002''\<rparr>
     \<in> set (batchOf (parseCSV (\<lambda>i. 1700) (\<lambda>i. ''2026-01-01'')
          (''date,ref,description,debit,credit'' @ [CHR 0x0A]
             @ ''2024-06-02,PO-502,Purchase Parts,2500000,0'')))
   \<and> ''2000'' \<notin> set (map accountId (lines (journalEntryOf
        \<lparr>id' = ''TX-CSV-1700-1'', date = ''2024-06-02'', description = ''Purchase Parts'',
         category = Expense, amount = - 2500000, reference = ''PO-502'',
         contraAccount = Some ''1002''\<rparr>)))
   \<and> accountId (lines (journalEntryOf
        \<lparr>id' = ''TX-CSV-1700-1'', date = ''2024-06-02'', description = ''Purchase Parts'',
         category = Expense, amount = - 2500000, reference = ''PO-502'',
         contraAccount = Some ''1002''\<rparr>) ! 1) = ''1002''
   \<and> credit (lines (journalEntryOf
        \<lparr>id' = ''TX-CSV-1700-1'', date = ''2024-06-02'', description = ''Purchase Parts'',
         category = Expense, amount = - 2500000, reference = ''PO-502'',
         contraAccount = Some ''1002''\<rparr>) ! 1) = 2500000"
proof -
  let ?tx = "\<lparr>id' = ''TX-CSV-1700-1'', date = ''2024-06-02'', description = ''Purchase Parts'',
     category = Expense, amount = - 2500000, reference = ''PO-502'',
     contraAccount = Some ''1002''\<rparr>"
  have h: "?tx \<in> set (batchOf (parseCSV (\<lambda>i. 1700) (\<lambda>i. ''2026-01-01'')
          (''date,ref,description,debit,credit'' @ [CHR 0x0A]
             @ ''2024-06-02,PO-502,Purchase Parts,2500000,0'')))"
    unfolding file_parts by (simp add: batchOf_def)
  have e: "category ?tx = Expense" and a: "\<bar>amount ?tx\<bar> = 2500000"
    by simp_all
  from import_credits_bank [OF h] e a h show ?thesis
    by (simp only: simp_thms)
qed








section \<open>Journal import and income statement\<close>

lemma fold_addLine:
  "fold addLine ls (r, c, ox)
     = (foldl (+) r (map credit (filter (\<lambda>l. accountId l = ''4000'') ls)),
        foldl (+) c (map debit (filter (\<lambda>l. accountId l = ''5001'') ls)),
        foldl (+) ox (map debit (filter (\<lambda>l. accountId l = ''5002'') ls)))"
  by (induction ls arbitrary: r c ox) (simp_all add: addLine_def)

lemma fold_entries:
  "fold (\<lambda>entry acc. fold addLine (lines entry) acc) es (r, c, ox)
     = (foldl (+) r (map credit (filter (\<lambda>l. accountId l = ''4000'') (concat (map lines es)))),
        foldl (+) c (map debit (filter (\<lambda>l. accountId l = ''5001'') (concat (map lines es)))),
        foldl (+) ox (map debit (filter (\<lambda>l. accountId l = ''5002'') (concat (map lines es)))))"
  by (induction es arbitrary: r c ox) (simp_all add: fold_addLine)

lemma incomeStatement_lines:
  "revenue (incomeStatement es)
     = foldl (+) 0 (map credit (filter (\<lambda>l. accountId l = ''4000'') (concat (map lines es))))"
  "cogs (incomeStatement es)
     = foldl (+) 0 (map debit (filter (\<lambda>l. accountId l = ''5001'') (concat (map lines es))))"
  "opex (incomeStatement es)
     = foldl (+) 0 (map debit (filter (\<lambda>l. accountId l = ''5002'') (concat (map lines es))))"
  "netIncome (incomeStatement es)
     = revenue (incomeStatement es) - cogs (incomeStatement es) - opex (incomeStatement es)"
  by (simp_all add: incomeStatement_def fold_entries)

lemma update_tagged:
  assumes "\<forall>p\<in>set g. P (snd p)" and "\<And>e. P e \<Longrightarrow> P (f e)"
  shows "\<forall>p\<in>set (map (\<lambda>(k, e). if k = r then (k, f e) else (k, e)) g). P (snd p)"
  using assms by (induction g) (auto split: prod.splits)

lemma groupRow_cases:
  assumes "groupRow sfx i l g = Inr g'"
  obtains (skip) "g' = g"
  | (create) ref d0 ln where
      "g' = g @ [(ref, \<lparr>entryId = ''CSV-'' @ ref @ ''-'' @ sfx, entryDate = d0,
                        entryReference = ref, entryDescription = ''Imported Transaction'',
                        lines = [ln]\<rparr>)]"
  | (push) ref ln where
      "g' = map (\<lambda>(k, e). if k = ref then (k, pushLine ln e) else (k, e)) g"
proof (cases "trim l = [] \<or> length (map trim (split_str (CHR '','') (trim l))) < 5")
  case True
  then have "g' = g"
    using assms unfolding groupRow_def Let_def by (simp split: if_splits)
  then show ?thesis by (rule skip)
next
  case False
  let ?cols = "map trim (split_str (CHR '','') (trim l))"
  show ?thesis
  proof (cases "map_of g (?cols ! 1) = None")
    case True
    with False assms show ?thesis
      unfolding groupRow_def Let_def by (intro create) (auto split: if_splits)
  next
    case nonempty: False
    with False assms show ?thesis
      unfolding groupRow_def Let_def by (intro push) (auto split: if_splits)
  qed
qed

lemma groupRow_tagged:
  assumes "groupRow sfx i l g = Inr g'"
    and "\<forall>p\<in>set g. entryDescription (snd p) = ''Imported Transaction''
                    \<and> prefix ''CSV-'' (entryId (snd p))"
  shows "\<forall>p\<in>set g'. entryDescription (snd p) = ''Imported Transaction''
                    \<and> prefix ''CSV-'' (entryId (snd p))"
  using assms(1)
proof (cases rule: groupRow_cases)
  case skip
  with assms(2) show ?thesis by simp
next
  case (create ref d0 ln)
  with assms(2) show ?thesis by simp
next
  case (push ref ln)
  have "\<forall>p\<in>set (map (\<lambda>(k, e). if k = ref then (k, pushLine ln e) else (k, e)) g).
          entryDescription (snd p) = ''Imported Transaction'' \<and> prefix ''CSV-'' (entryId (snd p))"
    using assms(2) by (rule update_tagged) (simp add: pushLine_def)
  with push show ?thesis by simp
qed

lemma groupLoop_tagged:
  assumes "groupLoop rand i ls g = Inr g'"
    and "\<forall>p\<in>set g. entryDescription (snd p) = ''Imported Transaction''
                    \<and> prefix ''CSV-'' (entryId (snd p))"
  shows "\<forall>p\<in>set g'. entryDescription (snd p) = ''Imported Transaction''
                    \<and> prefix ''CSV-'' (entryId (snd p))"
  using assms
proof (induction ls arbitrary: i g)
  case Nil
  then show ?case by simp
next
  case (Cons l ls)
  from Cons.prems(1) obtain g1 where r: "groupRow (rand i) i l g = Inr g1"
    and rest: "groupLoop rand (i + 1) ls g1 = Inr g'"
    by (auto split: sum.splits)
  from groupRow_tagged [OF r Cons.prems(2)] Cons.IH [OF rest] show ?case
    by blast
qed

lemma set_objectValues: "set (objectValues g) \<subseteq> snd ` set g"
  by (auto simp: objectValues_def)

lemma cleanNumber_0: "cleanNumber ''0'' = 0"
  by (simp add: cleanNumber_def parseFloat_def isDigit_def)

lemma cleanNumber_100: "cleanNumber ''100'' = 100"
  by (simp add: cleanNumber_def parseFloat_def isDigit_def)

lemma mapAccount_sales: "mapAccount ''Sales Revenue'' = ''4000''"
  by (simp add: mapAccount_def toLowerCase_def toLowerChar_def setBit5_def)

lemma row_sales:
  "groupRow sfx i ''2024-06-10,JV-1,Sales Revenue,0,100'' []
     = Inr [(''JV-1'', \<lparr>entryId = ''CSV-JV-1-'' @ sfx, entryDate = ''2024-06-10'',
                         entryReference = ''JV-1'', entryDescription = ''Imported Transaction'',
                         lines = [\<lparr>accountId = ''4000'', accountName = ''Sales Revenue'',
                                   debit = 0, credit = 100\<rparr>]\<rparr>)]"
proof -
  have t: "trim ''2024-06-10,JV-1,Sales Revenue,0,100'' = ''2024-06-10,JV-1,Sales Revenue,0,100''"
    by (simp add: trim_def isWhiteSpace_def)
  have c: "map trim (split_str (CHR '','') ''2024-06-10,JV-1,Sales Revenue,0,100'')
             = [''2024-06-10'', ''JV-1'', ''Sales Revenue'', ''0'', ''100'']"
    by (simp add: trim_def isWhiteSpace_def)
  show ?thesis
    unfolding groupRow_def t c Let_def
    by (simp add: removeAll_char_def mapAccount_sales cleanNumber_0 cleanNumber_100
        objectPrototypeKeys_def)
qed

lemma file_sales:
  "parseJournalCSV (\<lambda>i. ''k3x9a'')
     (''Date,Ref,Account,Debit,Credit'' @ [CHR 0x0A] @ ''2024-06-10,JV-1,Sales Revenue,0,100'')
   = Inr [\<lparr>entryId = ''CSV-JV-1-k3x9a'', entryDate = ''2024-06-10'',
            entryReference = ''JV-1'', entryDescription = ''Imported Transaction'',
            lines = [\<lparr>accountId = ''4000'', accountName = ''Sales Revenue'',
                      debit = 0, credit = 100\<rparr>]\<rparr>]"
proof -
  have l: "drop 1 (split_str (CHR 0x0A)
             (''Date,Ref,Account,Debit,Credit'' @ [CHR 0x0A] @ ''2024-06-10,JV-1,Sales Revenue,0,100''))
           = [''2024-06-10,JV-1,Sales Revenue,0,100'']"
    by simp
  show ?thesis
    unfolding parseJournalCSV_def l
    by (simp add: row_sales objectValues_def isArrayIndex_def isDigit_def)
qed

lemma runUploads_tagged:
  "\<forall>e\<in>set (runUploads files).
     prefix ''CSV-'' (entryId e) \<and> entryDescription e = ''Imported Transaction''"
proof -
  have "\<forall>e\<in>set (fold (\<lambda>f prev. setUploadedEntries prev (parseJournalCSV (fst f) (snd f))) files prev).
          prefix ''CSV-'' (entryId e) \<and> entryDescription e = ''Imported Transaction''"
    if "\<forall>e\<in>set prev. prefix ''CSV-'' (entryId e) \<and> entryDescription e = ''Imported Transaction''"
    for prev
    using that
  proof (induction files arbitrary: prev)
    case Nil
    then show ?case by simp
  next
    case (Cons f files)
    have "\<forall>e\<in>set (setUploadedEntries prev (parseJournalCSV (fst f) (snd f))).
            prefix ''CSV-'' (entryId e) \<and> entryDescription e = ''Imported Transaction''"
    proof (cases "parseJournalCSV (fst f) (snd f)")
      case (Inl err)
      with Cons.prems show ?thesis
        by (simp add: setUploadedEntries_def)
    next
      case (Inr newEntries)
      then obtain g
        where g: "groupLoop (fst f) 1 (drop 1 (split_str (CHR 0x0A) (snd f))) [] = Inr g"
          and new: "newEntries = objectValues g"
        by (auto simp: parseJournalCSV_def split: sum.splits)
      have "\<forall>p\<in>set g. entryDescription (snd p) = ''Imported Transaction''
                       \<and> prefix ''CSV-'' (entryId (snd p))"
        by (rule groupLoop_tagged [OF g]) simp
      then have "\<forall>e\<in>set newEntries.
          prefix ''CSV-'' (entryId e) \<and> entryDescription e = ''Imported Transaction''"
        using set_objectValues [of g] unfolding new by blast
      with Cons.prems Inr show ?thesis
        by (auto simp: setUploadedEntries_def)
    qed
    from Cons.IH [OF this] show ?case
      by simp
  qed
  from this [of "[]"] show ?thesis
    unfolding runUploads_def by simp
qed

lemma materializeRow_id:
  assumes "materializeRow now today cm i cols = Some tx"
  shows "prefix ''TX'' (id' tx)"
  using assms by (auto simp: materializeRow_def Let_def split: if_splits)

lemma runStore_ids: "\<forall>tx\<in>set (runStore events). prefix ''TX'' (id' tx)"
proof -
  have step: "\<forall>tx\<in>set (fold storeStep events prev). prefix ''TX'' (id' tx)"
    if "\<forall>tx\<in>set prev. prefix ''TX'' (id' tx)" for prev
    using that
  proof (induction events arbitrary: prev)
    case Nil
    then show ?case by simp
  next
    case (Cons ev events)
    have "\<forall>tx\<in>set (storeStep ev prev). prefix ''TX'' (id' tx)"
    proof (cases ev)
      case (Submit now rnd formData)
      with Cons.prems show ?thesis
        by (simp add: handleAddTransaction_def handleSubmit_def Let_def)
    next
      case (ImportFile now today csvText)
      have "prefix ''TX'' (id' tx)" if "tx \<in> set (batchOf (parseCSV now today csvText))" for tx
        using batch_materialized [OF that] materializeRow_id by blast
      with Cons.prems ImportFile show ?thesis
        by (auto simp: handleAddBatchTransactions_def batchOf_def split: Outcome.splits)
    qed
    from Cons.IH [OF this] show ?case
      by simp
  qed
  have mock: "\<forall>tx\<in>set MOCK_TRANSACTIONS. prefix ''TX'' (id' tx)"
    by (simp add: MOCK_TRANSACTIONS_def)
  show ?thesis
    unfolding runStore_def by (rule step [OF mock])
qed

lemma TX_not_CSV: "prefix ''TX'' s \<Longrightarrow> \<not> prefix ''CSV-'' s"
  by (cases s) auto

lemma journal_mock:
  "allJournalEntries (\<lambda>d. 0) es MOCK_TRANSACTIONS = es @ systemJournalEntries MOCK_TRANSACTIONS"
proof -
  have "sort_key (\<lambda>e. 0 :: int) xs = xs" for xs :: "JournalEntry list"
    by (induction xs) (simp_all add: insort_is_Cons)
  then show ?thesis
    by (simp add: allJournalEntries_def)
qed

lemma mock_revenue:
  "foldl (+) r (map credit (filter (\<lambda>l. accountId l = ''4000'')
      (concat (map lines (systemJournalEntries MOCK_TRANSACTIONS))))) = r + 450000 + 1200000"
  by (simp add: systemJournalEntries_def journalEntryOf_def journalLines_def
      MOCK_TRANSACTIONS_def)

text \<open>
  C3, as stated: the totals of the income statement are unaffected by imported lines on the
  accounts 4000, 5001 and 5002. The file below is imported as one entry with a credit of 100
  on account 4000; with it among the uploaded entries the revenue of the income statement
  over the same transactions is 1650100, without it 1650000.
\<close>

theorem imported_revenue_counterexample:
  "revenue (incomeStatement (allJournalEntries (\<lambda>d. 0)
      (setUploadedEntries []
         (parseJournalCSV (\<lambda>i. ''k3x9a'')
            (''Date,Ref,Account,Debit,Credit'' @ [CHR 0x0A]
               @ ''2024-06-10,JV-1,Sales Revenue,0,100'')))
      MOCK_TRANSACTIONS)) = 1650100
   \<and> revenue (incomeStatement (allJournalEntries (\<lambda>d. 0) [] MOCK_TRANSACTIONS)) = 1650000"
  unfolding file_sales incomeStatement_lines journal_mock
  by (simp add: setUploadedEntries_def mock_revenue)

text \<open>
  C3, amended: imported entries are tagged distinctly from system-derived ones: the id of
  every entry of the grouped CSV import begins with "CSV-", and the id of every entry
  derived from the transaction list, which holds the initial transactions, those of the form
  and those of the transaction import, begins with "TX". The report aggregation makes no use
  of the tag. The merged journal holds the uploaded and the system-derived entries, and the
  revenue, the cost of goods sold and the operating expense of the income statement are the
  sums, taken in the order of the merged journal from 0, of the credits of all its lines on
  account 4000 and of the debits of all its lines on 5001 and on 5002, the lines of imported
  entries included.
\<close>

theorem imported_lines_counted:
  "(\<forall>e\<in>set (runUploads files).
      prefix ''CSV-'' (entryId e) \<and> entryDescription e = ''Imported Transaction'')
   \<and> (\<forall>e\<in>set (systemJournalEntries (runStore events)).
        prefix ''TX'' (entryId e) \<and> \<not> prefix ''CSV-'' (entryId e))
   \<and> set (allJournalEntries getTime uploadedEntries transactions)
       = set uploadedEntries \<union> set (systemJournalEntries transactions)
   \<and> length (allJournalEntries getTime uploadedEntries transactions)
       = length uploadedEntries + length transactions
   \<and> revenue (incomeStatement (allJournalEntries getTime uploadedEntries transactions))
       = foldl (+) 0 (map credit (filter (\<lambda>l. accountId l = ''4000'')
           (concat (map lines (allJournalEntries getTime uploadedEntries transactions)))))
   \<and> cogs (incomeStatement (allJournalEntries getTime uploadedEntries transactions))
       = foldl (+) 0 (map debit (filter (\<lambda>l. accountId l = ''5001'')
           (concat (map lines (allJournalEntries getTime uploadedEntries transactions)))))
   \<and> opex (incomeStatement (allJournalEntries getTime uploadedEntries transactions))
       = foldl (+) 0 (map debit (filter (\<lambda>l. accountId l = ''5002'')
           (concat (map lines (allJournalEntries getTime uploadedEntries transactions)))))"
proof (intro conjI)
  show "\<forall>e\<in>set (runUploads files).
      prefix ''CSV-'' (entryId e) \<and> entryDescription e = ''Imported Transaction''"
    by (rule runUploads_tagged)
  show "\<forall>e\<in>set (systemJournalEntries (runStore events)).
        prefix ''TX'' (entryId e) \<and> \<not> prefix ''CSV-'' (entryId e)"
    using runStore_ids [of events] TX_not_CSV
    by (auto simp: systemJournalEntries_def journalEntryOf_def)
  show "set (allJournalEntries getTime uploadedEntries transactions)
       = set uploadedEntries \<union> set (systemJournalEntries transactions)"
    by (simp add: allJournalEntries_def)
  show "length (allJournalEntries getTime uploadedEntries transactions)
       = length uploadedEntries + length transactions"
    by (simp add: allJournalEntries_def systemJournalEntries_def)
qed (simp_all only: incomeStatement_lines)

theorem imported_lines_counted_witness:
  "runUploads [(\<lambda>i. ''k3x9a'',
       ''Date,Ref,Account,Debit,Credit'' @ [CHR 0x0A] @ ''2024-06-10,JV-1,Sales Revenue,0,100'')]
     = [\<lparr>entryId = ''CSV-JV-1-k3x9a'', entryDate = ''2024-06-10'',
          entryReference = ''JV-1'', entryDescription = ''Imported Transaction'',
          lines = [\<lparr>accountId = ''4000'', accountName = ''Sales Revenue'',
                    debit = 0, credit = 100\<rparr>]\<rparr>]
   \<and> prefix ''CSV-'' ''CSV-JV-1-k3x9a''
   \<and> journalEntryOf (MOCK_TRANSACTIONS ! 0) \<in> set (systemJournalEntries (runStore []))
   \<and> prefix ''TX'' (entryId (journalEntryOf (MOCK_TRANSACTIONS ! 0)))
   \<and> \<not> prefix ''CSV-'' (entryId (journalEntryOf (MOCK_TRANSACTIONS ! 0)))
   \<and> revenue (incomeStatement (allJournalEntries (\<lambda>d. 0)
        [\<lparr>entryId = ''CSV-JV-1-k3x9a'', entryDate = ''2024-06-10'',
           entryReference = ''JV-1'', entryDescription = ''Imported Transaction'',
           lines = [\<lparr>accountId = ''4000'', accountName = ''Sales Revenue'',
                     debit = 0, credit = 100\<rparr>]\<rparr>] MOCK_TRANSACTIONS))
     = 0 + 100 + 450000 + 1200000"
proof -
  let ?file = "''Date,Ref,Account,Debit,Credit'' @ [CHR 0x0A] @ ''2024-06-10,JV-1,Sales Revenue,0,100''"
  let ?e = "\<lparr>entryId = ''CSV-JV-1-k3x9a'', entryDate = ''2024-06-10'',
            entryReference = ''JV-1'', entryDescription = ''Imported Transaction'',
            lines = [\<lparr>accountId = ''4000'', accountName = ''Sales Revenue'',
                      debit = 0, credit = 100\<rparr>]\<rparr>"
  note inst = imported_lines_counted [of "[(\<lambda>i. ''k3x9a'', ?file)]" "[]" "\<lambda>d. 0" "[?e]"
      MOCK_TRANSACTIONS]
  have u: "runUploads [(\<lambda>i. ''k3x9a'', ?file)] = [?e]"
    using file_sales by (simp add: runUploads_def setUploadedEntries_def)
  with inst have p: "prefix ''CSV-'' ''CSV-JV-1-k3x9a''"
    by simp
  have m: "journalEntryOf (MOCK_TRANSACTIONS ! 0) \<in> set (systemJournalEntries (runStore []))"
    by (simp add: runStore_def systemJournalEntries_def MOCK_TRANSACTIONS_def)
  with inst have t: "prefix ''TX'' (entryId (journalEntryOf (MOCK_TRANSACTIONS ! 0)))"
    and n: "\<not> prefix ''CSV-'' (entryId (journalEntryOf (MOCK_TRANSACTIONS ! 0)))"
    by blast+
  from inst have "revenue (incomeStatement (allJournalEntries (\<lambda>d. 0) [?e] MOCK_TRANSACTIONS))
      = foldl (+) 0 (map credit (filter (\<lambda>l. accountId l = ''4000'')
           (concat (map lines (allJournalEntries (\<lambda>d. 0) [?e] MOCK_TRANSACTIONS)))))"
    by blast
  also have "\<dots> = 0 + 100 + 450000 + 1200000"
    unfolding journal_mock by (simp add: mock_revenue)
  finally have r: "revenue (incomeStatement (allJournalEntries (\<lambda>d. 0) [?e] MOCK_TRANSACTIONS))
      = 0 + 100 + 450000 + 1200000" .
  from u p m t n r show ?thesis
    by (intro conjI)
qed

end
